theory Spec2Isabelle
  imports Complex_Main
begin

section \<open>Deprojected galactocentric distance (gal\_radii\_pb.py)\<close>

text \<open>
  The repository is one function, \<open>correct_rgc\<close>, written over numpy floats and
  astropy quantities. The embedding keeps the source's steps, names and unit
  conversions. Numbers are numpy floats without rounding: a finite value is an
  exact real, and the special values that numpy produces at a domain error
  (division by zero, \<open>inf - inf\<close>, \<open>cos inf\<close>) are values of their own, since
  numpy warns and carries on where plain real arithmetic has nothing to say.
  Rounding, overflow and the sign of zero are not modelled: a zero is \<open>+0\<close>.
\<close>

subsection \<open>numpy floats\<close>

datatype npfloat = Fin real | PInf | NInf | NaN

fun np_add :: "npfloat \<Rightarrow> npfloat \<Rightarrow> npfloat" where
  "np_add NaN _ = NaN"
| "np_add _ NaN = NaN"
| "np_add (Fin a) (Fin b) = Fin (a + b)"
| "np_add (Fin _) PInf = PInf"
| "np_add (Fin _) NInf = NInf"
| "np_add PInf (Fin _) = PInf"
| "np_add NInf (Fin _) = NInf"
| "np_add PInf PInf = PInf"
| "np_add NInf NInf = NInf"
| "np_add PInf NInf = NaN"
| "np_add NInf PInf = NaN"

fun np_mul :: "npfloat \<Rightarrow> npfloat \<Rightarrow> npfloat" where
  "np_mul NaN _ = NaN"
| "np_mul _ NaN = NaN"
| "np_mul (Fin a) (Fin b) = Fin (a * b)"
| "np_mul (Fin a) PInf = (if 0 < a then PInf else if a < 0 then NInf else NaN)"
| "np_mul (Fin a) NInf = (if 0 < a then NInf else if a < 0 then PInf else NaN)"
| "np_mul PInf (Fin b) = (if 0 < b then PInf else if b < 0 then NInf else NaN)"
| "np_mul NInf (Fin b) = (if 0 < b then NInf else if b < 0 then PInf else NaN)"
| "np_mul PInf PInf = PInf"
| "np_mul NInf NInf = PInf"
| "np_mul PInf NInf = NInf"
| "np_mul NInf PInf = NInf"

text \<open>
  Division of numpy floats: a nonzero value over zero is an infinity of the
  numerator's sign, \<open>0 / 0\<close> is NaN, and no exception is raised.
\<close>

fun np_div :: "npfloat \<Rightarrow> npfloat \<Rightarrow> npfloat" where
  "np_div NaN _ = NaN"
| "np_div _ NaN = NaN"
| "np_div (Fin a) (Fin b) =
     (if b \<noteq> 0 then Fin (a / b)
      else if 0 < a then PInf else if a < 0 then NInf else NaN)"
| "np_div (Fin _) PInf = Fin 0"
| "np_div (Fin _) NInf = Fin 0"
| "np_div PInf (Fin b) = (if 0 \<le> b then PInf else NInf)"
| "np_div NInf (Fin b) = (if 0 \<le> b then NInf else PInf)"
| "np_div PInf PInf = NaN"
| "np_div PInf NInf = NaN"
| "np_div NInf PInf = NaN"
| "np_div NInf NInf = NaN"

fun np_cos :: "npfloat \<Rightarrow> npfloat" where
  "np_cos (Fin a) = Fin (cos a)"
| "np_cos _ = NaN"

fun np_sin :: "npfloat \<Rightarrow> npfloat" where
  "np_sin (Fin a) = Fin (sin a)"
| "np_sin _ = NaN"

fun np_arctan :: "npfloat \<Rightarrow> npfloat" where
  "np_arctan (Fin a) = Fin (arctan a)"
| "np_arctan PInf = Fin (pi / 2)"
| "np_arctan NInf = Fin (- (pi / 2))"
| "np_arctan NaN = NaN"

fun np_sqrt :: "npfloat \<Rightarrow> npfloat" where
  "np_sqrt (Fin a) = (if a < 0 then NaN else Fin (sqrt a))"
| "np_sqrt PInf = PInf"
| "np_sqrt NInf = NaN"
| "np_sqrt NaN = NaN"

definition np_square :: "npfloat \<Rightarrow> npfloat" where
  "np_square v = np_mul v v"

fun np_negative :: "npfloat \<Rightarrow> bool" where
  "np_negative (Fin a) = (a < 0)"
| "np_negative NInf = True"
| "np_negative _ = False"

fun np_finite :: "npfloat \<Rightarrow> bool" where
  "np_finite (Fin _) = True"
| "np_finite _ = False"

subsection \<open>Angles, coordinates and distances of astropy\<close>

text \<open>
  An \<open>Angle\<close> read from a string such as \<open>'37d42m54s'\<close> and the components of a
  \<open>SkyCoord\<close> hold degrees; the attributes \<open>.radian\<close>, \<open>.arcmin\<close> and \<open>.arcsec\<close>
  multiply by the unit's scale.
\<close>

record SkyCoord =
  ra :: real
  dec :: real

definition deg_radian :: "real \<Rightarrow> real" where
  "deg_radian d = d * (pi / 180)"

definition deg_arcsec :: "real \<Rightarrow> real" where
  "deg_arcsec d = d * 3600"

definition np_deg_radian :: "npfloat \<Rightarrow> npfloat" where
  "np_deg_radian v = np_mul v (Fin (pi / 180))"

definition np_radian_deg :: "npfloat \<Rightarrow> npfloat" where
  "np_radian_deg v = np_mul v (Fin (180 / pi))"

definition np_radian_arcmin :: "npfloat \<Rightarrow> npfloat" where
  "np_radian_arcmin v = np_mul v (Fin (10800 / pi))"

definition np_arcmin_radian :: "npfloat \<Rightarrow> npfloat" where
  "np_arcmin_radian v = np_mul v (Fin (pi / 10800))"

text \<open>
  \<open>numpy.arctan2\<close> and \<open>numpy.hypot\<close> on finite arguments, and the great-circle
  separation that \<open>SkyCoord.separation\<close> computes with them (astropy's
  \<open>angular_separation\<close>, the Vincenty formula). The library hands the angle
  over in degrees; the model keeps the radians of the formula and converts to
  arcminutes in one step, which is the same number.
\<close>

definition arctan2 :: "real \<Rightarrow> real \<Rightarrow> real" where
  "arctan2 y x =
     (if 0 < x then arctan (y / x)
      else if x < 0 then (if 0 \<le> y then arctan (y / x) + pi else arctan (y / x) - pi)
      else if 0 < y then pi / 2 else if y < 0 then - (pi / 2) else 0)"

definition hypot :: "real \<Rightarrow> real \<Rightarrow> real" where
  "hypot a b = sqrt (a\<^sup>2 + b\<^sup>2)"

definition angular_separation :: "real \<Rightarrow> real \<Rightarrow> real \<Rightarrow> real \<Rightarrow> real" where
  "angular_separation lon1 lat1 lon2 lat2 =
     (let sdlon = sin (lon2 - lon1);
          cdlon = cos (lon2 - lon1);
          slat1 = sin lat1;
          slat2 = sin lat2;
          clat1 = cos lat1;
          clat2 = cos lat2;
          num1 = clat2 * sdlon;
          num2 = clat1 * slat2 - slat1 * clat2 * cdlon;
          denominator = slat1 * slat2 + clat1 * clat2 * cdlon
      in arctan2 (hypot num1 num2) denominator)"

definition separation :: "SkyCoord \<Rightarrow> SkyCoord \<Rightarrow> real" where
  "separation self other =
     angular_separation (deg_radian (ra self)) (deg_radian (dec self))
                        (deg_radian (ra other)) (deg_radian (dec other))"

text \<open>
  A \<open>Distance\<close> is a value (one float, or an array of them) with its unit. The
  constructor refuses a negative value, or an array with any negative element,
  with \<open>ValueError\<close>; NaN and infinity pass.
\<close>

record ('v, 'u) Distance =
  q_value :: 'v
  q_unit :: 'u

datatype length_unit = kpc | pc | Mpc

datatype error = ValueError

definition mk_Distance :: "npfloat \<Rightarrow> 'u \<Rightarrow> error + (npfloat, 'u) Distance" where
  "mk_Distance v un =
     (if np_negative v then Inl ValueError else Inr \<lparr>q_value = v, q_unit = un\<rparr>)"

definition mk_Distance_array ::
  "npfloat list \<Rightarrow> 'u \<Rightarrow> error + (npfloat list, 'u) Distance" where
  "mk_Distance_array vs un =
     (if list_ex np_negative vs then Inl ValueError else Inr \<lparr>q_value = vs, q_unit = un\<rparr>)"

subsection \<open>correct\_rgc, step by step\<close>

text \<open>Each definition is one local variable of the source, under its name.\<close>

definition sky_radius :: "SkyCoord \<Rightarrow> SkyCoord \<Rightarrow> real" where
  "sky_radius coord glx_ctr = separation glx_ctr coord"

definition avg_dec :: "SkyCoord \<Rightarrow> SkyCoord \<Rightarrow> real" where
  "avg_dec coord glx_ctr = 0.5 * deg_radian (dec glx_ctr + dec coord)"

definition rgc_x :: "SkyCoord \<Rightarrow> SkyCoord \<Rightarrow> real" where
  "rgc_x coord glx_ctr = (ra glx_ctr - ra coord) * cos (avg_dec coord glx_ctr)"

definition rgc_y :: "SkyCoord \<Rightarrow> SkyCoord \<Rightarrow> real" where
  "rgc_y coord glx_ctr = dec glx_ctr - dec coord"

text \<open>The arctangent of line 44, in radians: \<open>np.arctan(y.arcsec / x.arcsec)\<close>.\<close>

definition rgc_arctan :: "SkyCoord \<Rightarrow> SkyCoord \<Rightarrow> npfloat" where
  "rgc_arctan coord glx_ctr =
     np_arctan (np_div (Fin (deg_arcsec (rgc_y coord glx_ctr)))
                       (Fin (deg_arcsec (rgc_x coord glx_ctr))))"

text \<open>\<open>phi\<close> is in degrees, the unit of its first summand.\<close>

definition rgc_phi :: "SkyCoord \<Rightarrow> SkyCoord \<Rightarrow> real \<Rightarrow> npfloat" where
  "rgc_phi coord glx_ctr glx_PA =
     np_add (Fin (glx_PA - 90)) (np_radian_deg (rgc_arctan coord glx_ctr))"

definition rgc_xp :: "SkyCoord \<Rightarrow> SkyCoord \<Rightarrow> real \<Rightarrow> npfloat" where
  "rgc_xp coord glx_ctr glx_PA =
     np_radian_arcmin (np_mul (Fin (sky_radius coord glx_ctr))
                              (np_cos (np_deg_radian (rgc_phi coord glx_ctr glx_PA))))"

definition rgc_yp :: "SkyCoord \<Rightarrow> SkyCoord \<Rightarrow> real \<Rightarrow> npfloat" where
  "rgc_yp coord glx_ctr glx_PA =
     np_radian_arcmin (np_mul (Fin (sky_radius coord glx_ctr))
                              (np_sin (np_deg_radian (rgc_phi coord glx_ctr glx_PA))))"

definition rgc_ypp :: "SkyCoord \<Rightarrow> SkyCoord \<Rightarrow> real \<Rightarrow> real \<Rightarrow> bool \<Rightarrow> npfloat" where
  "rgc_ypp coord glx_ctr glx_PA glx_incl deproject =
     (if deproject
      then np_div (rgc_yp coord glx_ctr glx_PA) (Fin (cos (deg_radian glx_incl)))
      else rgc_yp coord glx_ctr glx_PA)"

definition obj_radius :: "SkyCoord \<Rightarrow> SkyCoord \<Rightarrow> real \<Rightarrow> real \<Rightarrow> bool \<Rightarrow> npfloat" where
  "obj_radius coord glx_ctr glx_PA glx_incl deproject =
     np_sqrt (np_add (np_square (rgc_xp coord glx_ctr glx_PA))
                     (np_square (rgc_ypp coord glx_ctr glx_PA glx_incl deproject)))"

text \<open>
  The angle in the disk, computed after the distance and not returned. It is a
  numpy expression and raises nothing.
\<close>

definition obj_phi :: "SkyCoord \<Rightarrow> SkyCoord \<Rightarrow> real \<Rightarrow> real \<Rightarrow> bool \<Rightarrow> npfloat" where
  "obj_phi coord glx_ctr glx_PA glx_incl deproject =
     np_arctan (np_div (rgc_ypp coord glx_ctr glx_PA glx_incl deproject)
                       (rgc_xp coord glx_ctr glx_PA))"

definition correct_rgc ::
  "SkyCoord \<Rightarrow> SkyCoord \<Rightarrow> real \<Rightarrow> real \<Rightarrow> (npfloat, 'u) Distance \<Rightarrow> bool
     \<Rightarrow> error + (npfloat, 'u) Distance" where
  "correct_rgc coord glx_ctr glx_PA glx_incl glx_dist deproject =
     mk_Distance
       (np_mul (np_arcmin_radian (obj_radius coord glx_ctr glx_PA glx_incl deproject))
               (q_value glx_dist))
       (q_unit glx_dist)"

text \<open>The defaults of the signature.\<close>

definition default_glx_ctr :: SkyCoord where
  "default_glx_ctr =
     \<lparr>ra = (0 + 42 / 60 + 44.33 / 3600) * 15, dec = 41 + 16 / 60 + 7.5 / 3600\<rparr>"

definition default_glx_PA :: real where
  "default_glx_PA = 37 + 42 / 60 + 54 / 3600"

definition default_glx_incl :: real where
  "default_glx_incl = 77.5"

definition default_glx_dist :: "(npfloat, length_unit) Distance" where
  "default_glx_dist = \<lparr>q_value = Fin 783, q_unit = kpc\<rparr>"

subsection \<open>correct\_rgc on an array of coordinates\<close>

text \<open>
  With an array \<open>coord\<close>, \<open>coord.ra\<close> and \<open>coord.dec\<close> are arrays and every numpy
  and astropy operation of the function broadcasts: the same lines run once, on
  whole arrays. The arrays are lists; an operation between two arrays is
  \<open>map2\<close>, one between an array and a scalar is \<open>map\<close>.
\<close>

definition correct_rgc_array ::
  "SkyCoord list \<Rightarrow> SkyCoord \<Rightarrow> real \<Rightarrow> real \<Rightarrow> (npfloat, 'u) Distance \<Rightarrow> bool
     \<Rightarrow> error + (npfloat list, 'u) Distance" where
  "correct_rgc_array coord glx_ctr glx_PA glx_incl glx_dist deproject =
     (let coord_ra = map ra coord;
          coord_dec = map dec coord;
          sky_radius = map2 (\<lambda>lon lat.
              angular_separation (deg_radian (ra glx_ctr)) (deg_radian (dec glx_ctr))
                                 (deg_radian lon) (deg_radian lat)) coord_ra coord_dec;
          avg_dec = map (\<lambda>d. 0.5 * deg_radian (dec glx_ctr + d)) coord_dec;
          x = map2 (\<lambda>r a. (ra glx_ctr - r) * cos a) coord_ra avg_dec;
          y = map (\<lambda>d. dec glx_ctr - d) coord_dec;
          quot = map2 (\<lambda>b a. np_div (Fin (deg_arcsec b)) (Fin (deg_arcsec a))) y x;
          phi = map (\<lambda>q. np_add (Fin (glx_PA - 90)) (np_radian_deg (np_arctan q))) quot;
          cos_phi = map (\<lambda>p. np_cos (np_deg_radian p)) phi;
          sin_phi = map (\<lambda>p. np_sin (np_deg_radian p)) phi;
          xp = map2 (\<lambda>s c. np_radian_arcmin (np_mul (Fin s) c)) sky_radius cos_phi;
          yp = map2 (\<lambda>s c. np_radian_arcmin (np_mul (Fin s) c)) sky_radius sin_phi;
          ypp = (if deproject
                 then map (\<lambda>v. np_div v (Fin (cos (deg_radian glx_incl)))) yp
                 else yp);
          obj_radius = map2 (\<lambda>a b. np_sqrt (np_add (np_square a) (np_square b))) xp ypp
      in mk_Distance_array
           (map (\<lambda>r. np_mul (np_arcmin_radian r) (q_value glx_dist)) obj_radius)
           (q_unit glx_dist))"

subsection \<open>The calculation as the specification words it\<close>

text \<open>
  The seven steps of the design-level algorithm, written from the
  specification and not from the source: separation, planar offsets with the
  mean declination, \<open>phi\<close> from the arctangent of \<open>y / x\<close>, rotation in
  arcminutes, the optional stretch by \<open>1 / cos inclination\<close>, the planar radius,
  and the radius in radians times the distance, in the distance's unit.
\<close>

definition compute_galactocentric_distance ::
  "SkyCoord \<Rightarrow> SkyCoord \<Rightarrow> real \<Rightarrow> real \<Rightarrow> (npfloat, 'u) Distance \<Rightarrow> bool
     \<Rightarrow> (npfloat, 'u) Distance" where
  "compute_galactocentric_distance coord center position_angle inclination distance deproject =
     (let sep = separation center coord;
          mean_Dec = (dec center + dec coord) / 2;
          x = (ra center - ra coord) * cos (deg_radian mean_Dec);
          y = dec center - dec coord;
          phi = np_add (Fin (position_angle - 90))
                       (np_radian_deg (np_arctan (np_div (Fin y) (Fin x))));
          x' = np_radian_arcmin (np_mul (Fin sep) (np_cos (np_deg_radian phi)));
          y' = np_radian_arcmin (np_mul (Fin sep) (np_sin (np_deg_radian phi)));
          y'' = (if deproject then np_div y' (Fin (cos (deg_radian inclination))) else y');
          radius_arcmin = np_sqrt (np_add (np_square x') (np_square y''))
      in \<lparr>q_value = np_mul (np_arcmin_radian radius_arcmin) (q_value distance),
          q_unit = q_unit distance\<rparr>)"

subsection \<open>The concrete scenario and predicates of the properties\<close>

text \<open>
  Centre at RA 10h42m44.33s, Dec +41d16m07.5s, and a target 0.1 degrees north
  of it; position angle 37.7 degrees, inclination 77.5 degrees, 783 kpc.
\<close>

definition scenario_ctr :: SkyCoord where
  "scenario_ctr =
     \<lparr>ra = (10 + 42 / 60 + 44.33 / 3600) * 15, dec = 41 + 16 / 60 + 7.5 / 3600\<rparr>"

definition scenario_coord :: SkyCoord where
  "scenario_coord = \<lparr>ra = ra scenario_ctr, dec = dec scenario_ctr + 0.1\<rparr>"

definition scenario_PA :: real where
  "scenario_PA = 37.7"

definition scenario_incl :: real where
  "scenario_incl = 77.5"

definition scenario_dist :: "(npfloat, length_unit) Distance" where
  "scenario_dist = \<lparr>q_value = Fin 783, q_unit = kpc\<rparr>"


text \<open>A non-negative length is a finite value that is at least zero.\<close>

fun nonneg_length :: "npfloat \<Rightarrow> bool" where
  "nonneg_length (Fin a) = (0 \<le> a)"
| "nonneg_length _ = False"

subsection \<open>Facts about numpy floats\<close>

lemma np_div_one: "np_div v (Fin 1) = v"
  by (cases v) simp_all

lemma np_mul_NaN_right: "np_mul v NaN = NaN"
  by (cases v) simp_all

lemma np_add_NaN_right: "np_add v NaN = NaN"
  by (cases v) simp_all

lemma np_div_NaN_left: "np_div NaN v = NaN"
  by simp

subsection \<open>The inclination and the deprojection flag\<close>

text \<open>
  Claim C6. At an inclination of exactly 0 degrees the deprojected and the
  projected calls return the same result, whatever the coordinate, the centre,
  the position angle and the distance.
\<close>

theorem zero_inclination_noop:
  "correct_rgc coord glx_ctr glx_PA 0 glx_dist True
     = correct_rgc coord glx_ctr glx_PA 0 glx_dist False"
  by (simp add: correct_rgc_def obj_radius_def rgc_ypp_def deg_radian_def np_div_one)

text \<open>
  Claim C8. Without deprojection the inclination is not read: two calls that
  differ only in the inclination return the same value.
\<close>

theorem projected_ignores_inclination:
  "correct_rgc coord glx_ctr glx_PA incl1 glx_dist False
     = correct_rgc coord glx_ctr glx_PA incl2 glx_dist False"
  by (simp add: correct_rgc_def obj_radius_def rgc_ypp_def)

subsection \<open>The result is never refused for its sign\<close>

lemma np_sqrt_not_negative: "\<not> np_negative (np_sqrt v)"
  by (cases v) simp_all

lemma np_mul_not_negative:
  "\<not> np_negative a \<Longrightarrow> \<not> np_negative b \<Longrightarrow> \<not> np_negative (np_mul a b)"
  by (cases a; cases b) (auto simp: mult_less_0_iff)

lemma np_arcmin_radian_not_negative:
  "\<not> np_negative v \<Longrightarrow> \<not> np_negative (np_arcmin_radian v)"
  unfolding np_arcmin_radian_def by (rule np_mul_not_negative) simp_all

lemma obj_dist_not_negative:
  assumes "\<not> np_negative d"
  shows "\<not> np_negative
           (np_mul (np_arcmin_radian (obj_radius coord glx_ctr glx_PA glx_incl deproject)) d)"
  by (intro np_mul_not_negative np_arcmin_radian_not_negative assms)
     (simp add: obj_radius_def np_sqrt_not_negative)

lemma correct_rgc_returns:
  assumes "\<not> np_negative (q_value glx_dist)"
  shows "correct_rgc coord glx_ctr glx_PA glx_incl glx_dist deproject =
           Inr \<lparr>q_value = np_mul (np_arcmin_radian
                                     (obj_radius coord glx_ctr glx_PA glx_incl deproject))
                                  (q_value glx_dist),
                q_unit = q_unit glx_dist\<rparr>"
  using obj_dist_not_negative [OF assms] by (simp add: correct_rgc_def mk_Distance_def)

subsection \<open>The source against the design-level steps\<close>

lemma np_div_arcsec:
  "np_div (Fin (deg_arcsec b)) (Fin (deg_arcsec a)) = np_div (Fin b) (Fin a)"
  by (simp add: deg_arcsec_def)

lemma rgc_arctan_cases:
  "rgc_arctan coord glx_ctr =
     (if rgc_x coord glx_ctr \<noteq> 0 then Fin (arctan (rgc_y coord glx_ctr / rgc_x coord glx_ctr))
      else if 0 < rgc_y coord glx_ctr then Fin (pi / 2)
      else if rgc_y coord glx_ctr < 0 then Fin (- (pi / 2)) else NaN)"
  unfolding rgc_arctan_def np_div_arcsec by simp

text \<open>
  Claim C1. For a galaxy distance that is a valid \<open>Distance\<close> (not negative),
  \<open>correct_rgc\<close> returns, and what it returns is the composition of the seven
  design-level steps of the specification, in the unit of the distance. The
  quotient of the two offsets in arcseconds is the quotient \<open>y / x\<close>, also where
  \<open>x\<close> is zero.
\<close>

theorem correct_rgc_refines_steps:
  assumes "\<not> np_negative (q_value glx_dist)"
  shows "correct_rgc coord glx_ctr glx_PA glx_incl glx_dist deproject =
           Inr (compute_galactocentric_distance coord glx_ctr glx_PA glx_incl glx_dist deproject)"
proof -
  have half: "avg_dec coord glx_ctr = deg_radian ((dec glx_ctr + dec coord) / 2)"
    by (simp add: avg_dec_def deg_radian_def)
  show ?thesis
    unfolding correct_rgc_returns [OF assms] compute_galactocentric_distance_def Let_def
    unfolding obj_radius_def rgc_ypp_def rgc_xp_def rgc_yp_def rgc_phi_def rgc_arctan_def
        np_div_arcsec rgc_x_def rgc_y_def half sky_radius_def
    by simp
qed

theorem correct_rgc_refines_steps_witness:
  "\<not> np_negative (q_value default_glx_dist) \<and>
   correct_rgc scenario_coord default_glx_ctr default_glx_PA default_glx_incl default_glx_dist True =
     Inr (compute_galactocentric_distance scenario_coord default_glx_ctr default_glx_PA
            default_glx_incl default_glx_dist True)"
proof -
  have h: "\<not> np_negative (q_value default_glx_dist)"
    by (simp add: default_glx_dist_def)
  show ?thesis
    using h correct_rgc_refines_steps [OF h] by simp
qed

subsection \<open>A target at the centre\<close>

lemma center_offsets: "rgc_x c c = 0" "rgc_y c c = 0"
  by (simp_all add: rgc_x_def rgc_y_def)

lemma center_obj_radius: "obj_radius c c glx_PA glx_incl deproject = NaN"
  by (simp add: obj_radius_def rgc_xp_def rgc_phi_def rgc_arctan_cases center_offsets
      np_radian_deg_def np_deg_radian_def np_radian_arcmin_def np_square_def np_mul_NaN_right)

text \<open>
  Claim C2. At a coordinate equal to the centre both offsets are zero, the
  quotient of line 44 is \<open>0 / 0\<close>, and the NaN runs through every later step: for
  every position angle, inclination, distance and flag the function returns
  NaN in the unit of the distance, where the claim expects 0.
\<close>

theorem center_gives_NaN:
  "correct_rgc c c glx_PA glx_incl glx_dist deproject =
     Inr \<lparr>q_value = NaN, q_unit = q_unit glx_dist\<rparr>"
  by (simp add: correct_rgc_def center_obj_radius np_arcmin_radian_def mk_Distance_def)

text \<open>
  Claim C7. With the defaults of the signature and the target at the default
  centre, the call returns a \<open>Distance\<close> whose value is NaN: it is in the unit of
  the galaxy distance, and it is not a non-negative length.
\<close>

theorem center_not_nonneg_length:
  "correct_rgc default_glx_ctr default_glx_ctr default_glx_PA default_glx_incl
       default_glx_dist True = Inr \<lparr>q_value = NaN, q_unit = kpc\<rparr> \<and>
   \<not> nonneg_length NaN"
  by (simp add: correct_rgc_def center_obj_radius np_arcmin_radian_def mk_Distance_def
      default_glx_dist_def)

subsection \<open>Where every step is a finite number\<close>

text \<open>
  Away from the centre the arctangent is a number, and with a nonzero cosine of
  the inclination so is every later step: the result has a closed form over the
  reals.
\<close>

lemma rgc_phi_finite:
  assumes "rgc_x coord glx_ctr \<noteq> 0 \<or> rgc_y coord glx_ctr \<noteq> 0"
  shows "\<exists>p. rgc_phi coord glx_ctr glx_PA = Fin p"
proof -
  have "np_finite (rgc_arctan coord glx_ctr)"
    using assms by (auto simp: rgc_arctan_cases)
  then obtain a where "rgc_arctan coord glx_ctr = Fin a"
    by (cases "rgc_arctan coord glx_ctr") simp_all
  then have "rgc_phi coord glx_ctr glx_PA = Fin (glx_PA - 90 + a * (180 / pi))"
    by (simp add: rgc_phi_def np_radian_deg_def)
  then show ?thesis ..
qed

lemma rgc_xp_of_phi:
  "rgc_phi coord glx_ctr glx_PA = Fin p \<Longrightarrow>
   rgc_xp coord glx_ctr glx_PA = Fin (sky_radius coord glx_ctr * cos (deg_radian p) * (10800 / pi))"
  by (simp add: rgc_xp_def np_deg_radian_def np_radian_arcmin_def deg_radian_def)

lemma rgc_yp_of_phi:
  "rgc_phi coord glx_ctr glx_PA = Fin p \<Longrightarrow>
   rgc_yp coord glx_ctr glx_PA = Fin (sky_radius coord glx_ctr * sin (deg_radian p) * (10800 / pi))"
  by (simp add: rgc_yp_def np_deg_radian_def np_radian_arcmin_def deg_radian_def)


lemma obj_radius_finite:
  assumes "rgc_xp coord glx_ctr glx_PA = Fin a" and "rgc_yp coord glx_ctr glx_PA = Fin b"
    and "deproject \<longrightarrow> cos (deg_radian glx_incl) \<noteq> 0"
  shows "obj_radius coord glx_ctr glx_PA glx_incl deproject =
           Fin (sqrt (a\<^sup>2 + (if deproject then b / cos (deg_radian glx_incl) else b)\<^sup>2))"
proof -
  have nn: "\<not> a\<^sup>2 + c\<^sup>2 < 0" for c :: real
    by (simp add: not_less)
  show ?thesis
  proof (cases deproject)
    case True
    with assms have "rgc_ypp coord glx_ctr glx_PA glx_incl deproject = Fin (b / cos (deg_radian glx_incl))"
      by (simp add: rgc_ypp_def)
    with True assms(1) nn show ?thesis
      by (simp add: obj_radius_def np_square_def power2_eq_square [symmetric])
  next
    case False
    with assms have "rgc_ypp coord glx_ctr glx_PA glx_incl deproject = Fin b"
      by (simp add: rgc_ypp_def)
    with False assms(1) nn show ?thesis
      by (simp add: obj_radius_def np_square_def power2_eq_square [symmetric])
  qed
qed

lemma correct_rgc_finite:
  assumes "rgc_xp coord glx_ctr glx_PA = Fin a" and "rgc_yp coord glx_ctr glx_PA = Fin b"
    and "deproject \<longrightarrow> cos (deg_radian glx_incl) \<noteq> 0"
    and "q_value glx_dist = Fin d" and "0 \<le> d"
  shows "correct_rgc coord glx_ctr glx_PA glx_incl glx_dist deproject =
           Inr \<lparr>q_value = Fin (sqrt (a\<^sup>2 + (if deproject then b / cos (deg_radian glx_incl) else b)\<^sup>2)
                                 * (pi / 10800) * d),
                q_unit = q_unit glx_dist\<rparr>"
proof -
  have "\<not> np_negative (q_value glx_dist)"
    using assms(4,5) by simp
  from correct_rgc_returns [OF this] show ?thesis
    by (simp add: obj_radius_finite [OF assms(1-3)] assms(4) np_arcmin_radian_def)
qed

lemma correct_rgc_nonneg_length:
  assumes "rgc_x coord glx_ctr \<noteq> 0 \<or> rgc_y coord glx_ctr \<noteq> 0"
    and "deproject \<longrightarrow> cos (deg_radian glx_incl) \<noteq> 0"
    and "q_value glx_dist = Fin d" and "0 \<le> d"
  shows "\<exists>r. correct_rgc coord glx_ctr glx_PA glx_incl glx_dist deproject =
               Inr \<lparr>q_value = Fin r, q_unit = q_unit glx_dist\<rparr> \<and> 0 \<le> r"
proof -
  obtain p where p: "rgc_phi coord glx_ctr glx_PA = Fin p"
    using rgc_phi_finite [OF assms(1)] by blast
  note eq = correct_rgc_finite [OF rgc_xp_of_phi [OF p] rgc_yp_of_phi [OF p] assms(2-4)]
  have "0 \<le> sqrt (a\<^sup>2 + c\<^sup>2) * (pi / 10800) * d" for a c :: real
    using assms(4) by simp
  with eq show ?thesis by blast
qed

lemma stretch_strict_mono:
  fixes a b c1 c2 :: real
  assumes "b \<noteq> 0" "0 < c2" "c2 < c1"
  shows "sqrt (a\<^sup>2 + (b / c1)\<^sup>2) < sqrt (a\<^sup>2 + (b / c2)\<^sup>2)"
proof -
  have "\<bar>b\<bar> / c1 < \<bar>b\<bar> / c2"
    using assms by (simp add: divide_strict_left_mono)
  then have "\<bar>b / c1\<bar> < \<bar>b / c2\<bar>"
    using assms by simp
  then have "\<bar>b / c1\<bar>\<^sup>2 < \<bar>b / c2\<bar>\<^sup>2"
    by (intro power_strict_mono) simp_all
  then have "(b / c1)\<^sup>2 < (b / c2)\<^sup>2"
    by (simp only: power2_abs)
  then show ?thesis by simp
qed

subsection \<open>The concrete scenario, step by step\<close>

text \<open>
  Two coordinates of equal right ascension less than 90 degrees of declination
  apart are separated by the difference of their declinations.
\<close>

lemma separation_same_ra:
  assumes "ra a = ra b" and "0 \<le> dec b - dec a" and "dec b - dec a < 90"
  shows "separation a b = deg_radian (dec b - dec a)"
proof -
  define d where "d = deg_radian (dec b) - deg_radian (dec a)"
  have d: "d = deg_radian (dec b - dec a)"
    by (simp add: d_def deg_radian_def algebra_simps)
  have range: "0 \<le> d" "d < pi / 2"
    using assms(2,3) by (simp_all add: d deg_radian_def)
  have num2: "cos (deg_radian (dec a)) * sin (deg_radian (dec b))
                - sin (deg_radian (dec a)) * cos (deg_radian (dec b)) = sin d"
    by (simp add: d_def sin_diff)
  have den: "sin (deg_radian (dec a)) * sin (deg_radian (dec b))
                + cos (deg_radian (dec a)) * cos (deg_radian (dec b)) = cos d"
    by (simp add: d_def cos_diff)
  have cpos: "0 < cos d"
    using range by (intro cos_gt_zero_pi) (simp_all add: less_le_trans [OF _ range(1)])
  have snn: "0 \<le> sin d"
    using range by (intro sin_ge_zero) simp_all
  have "separation a b = arctan2 (hypot 0 (sin d)) (cos d)"
    unfolding separation_def angular_separation_def Let_def
    using num2 den by (simp add: assms(1))
  also have "\<dots> = arctan (sin d / cos d)"
    using cpos snn by (simp add: arctan2_def hypot_def)
  also have "\<dots> = d"
    using range arctan_tan [of d] by (simp add: tan_def less_le_trans [OF _ range(1)])
  finally show ?thesis by (simp add: d)
qed

lemma scenario_x: "rgc_x scenario_coord scenario_ctr = 0"
  by (simp add: rgc_x_def scenario_coord_def)

lemma scenario_y: "rgc_y scenario_coord scenario_ctr = - (1 / 10)"
  by (simp add: rgc_y_def scenario_coord_def)

lemma scenario_arctan: "rgc_arctan scenario_coord scenario_ctr = Fin (- (pi / 2))"
  by (simp add: rgc_arctan_cases scenario_x scenario_y)

lemma scenario_phi: "rgc_phi scenario_coord scenario_ctr glx_PA = Fin (glx_PA - 180)"
  by (simp add: rgc_phi_def scenario_arctan np_radian_deg_def)

lemma scenario_sky_radius: "sky_radius scenario_coord scenario_ctr = pi / 1800"
proof -
  have "separation scenario_ctr scenario_coord = deg_radian (dec scenario_coord - dec scenario_ctr)"
    by (rule separation_same_ra) (simp_all add: scenario_coord_def)
  then show ?thesis
    by (simp add: sky_radius_def scenario_coord_def deg_radian_def)
qed

lemma scenario_xp:
  "rgc_xp scenario_coord scenario_ctr glx_PA = Fin (6 * cos (deg_radian (glx_PA - 180)))"
  by (simp add: rgc_xp_of_phi [OF scenario_phi] scenario_sky_radius)

lemma scenario_yp:
  "rgc_yp scenario_coord scenario_ctr glx_PA = Fin (6 * sin (deg_radian (glx_PA - 180)))"
  by (simp add: rgc_yp_of_phi [OF scenario_phi] scenario_sky_radius)

lemma scenario_sin_negative: "sin (deg_radian (scenario_PA - 180)) < 0"
proof -
  have "0 < sin (deg_radian (180 - scenario_PA))"
    by (rule sin_gt_zero) (simp_all add: deg_radian_def scenario_PA_def)
  moreover have "deg_radian (scenario_PA - 180) = - deg_radian (180 - scenario_PA)"
    unfolding deg_radian_def by (simp only: minus_mult_left minus_diff_eq)
  ultimately show ?thesis by simp
qed


subsection \<open>A target of the centre's right ascension\<close>

text \<open>
  Claim C4, as amended. When the offset \<open>x\<close> is exactly zero the quotient of line 44
  is an infinity of the sign of \<open>y\<close> and the arctangent step returns the
  ordinary angle \<open>pi / 2\<close> or \<open>- pi / 2\<close>; it is NaN only where \<open>y\<close> is zero too.
  Nothing is raised.
\<close>

theorem minor_axis_arctan:
  assumes "rgc_x coord glx_ctr = 0"
  shows "rgc_arctan coord glx_ctr =
           (if 0 < rgc_y coord glx_ctr then Fin (pi / 2)
            else if rgc_y coord glx_ctr < 0 then Fin (- (pi / 2)) else NaN)"
  using assms by (simp add: rgc_arctan_cases)

theorem minor_axis_arctan_witness:
  "rgc_x \<lparr>ra = 10, dec = 41\<rparr> \<lparr>ra = 10, dec = 42\<rparr> = 0 \<and>
   rgc_arctan \<lparr>ra = 10, dec = 41\<rparr> \<lparr>ra = 10, dec = 42\<rparr> = Fin (pi / 2)"
proof -
  have h: "rgc_x \<lparr>ra = 10, dec = 41\<rparr> \<lparr>ra = 10, dec = 42\<rparr> = 0"
    by (simp add: rgc_x_def)
  show ?thesis
    using h minor_axis_arctan [OF h] by (simp add: rgc_y_def)
qed

text \<open>
  Claim C4, as stated, fails in the scenario: the target is due north of the
  centre, \<open>x\<close> is zero, and the arctangent step yields the finite angle
  \<open>- pi / 2\<close>, neither an infinity nor NaN.
\<close>

theorem minor_axis_arctan_ordinary:
  "rgc_x scenario_coord scenario_ctr = 0 \<and>
   rgc_arctan scenario_coord scenario_ctr = Fin (- (pi / 2)) \<and>
   np_finite (rgc_arctan scenario_coord scenario_ctr)"
  by (simp add: scenario_x scenario_arctan)

subsection \<open>Deprojection grows with the inclination\<close>





subsection \<open>The concrete scenario\<close>

text \<open>
  The cosine of 77.5 degrees is the sine of 12.5 degrees, and doubling the
  angle twice bounds it from below by a quarter of the sine of 30 degrees.
\<close>

lemma sin_double_le:
  fixes u :: real
  assumes "0 \<le> sin u"
  shows "sin (2 * u) \<le> 2 * sin u"
proof -
  have "sin u * cos u \<le> sin u * 1"
    using assms by (intro mult_left_mono) simp_all
  then show ?thesis by (simp add: sin_double)
qed

lemma cos_scenario_incl:
  "1 / 8 \<le> cos (deg_radian scenario_incl)" "cos (deg_radian scenario_incl) < 1"
proof -
  define u :: real where "u = 5 * pi / 72"
  have "deg_radian scenario_incl = pi / 2 - u"
    by (simp add: deg_radian_def scenario_incl_def u_def)
  then have cu: "cos (deg_radian scenario_incl) = sin u"
    using sin_cos_eq [of u] by simp
  have s1: "0 \<le> sin u"
    by (rule sin_ge_zero) (simp_all add: u_def)
  have s2: "0 \<le> sin (2 * u)"
    by (rule sin_ge_zero) (simp_all add: u_def)
  have "sin (pi / 6) \<le> sin (2 * (2 * u))"
    by (rule sin_monotone_2pi_le) (simp_all add: u_def)
  also have "\<dots> \<le> 2 * sin (2 * u)"
    by (rule sin_double_le [OF s2])
  also have "\<dots> \<le> 2 * (2 * sin u)"
    using sin_double_le [OF s1] by simp
  finally show "1 / 8 \<le> cos (deg_radian scenario_incl)"
    by (simp add: cu sin_30)
  have "cos (deg_radian scenario_incl) < cos 0"
    by (rule cos_monotone_0_pi) (simp_all add: deg_radian_def scenario_incl_def)
  then show "cos (deg_radian scenario_incl) < 1" by simp
qed

lemma stretched_radius_le:
  fixes a b c :: real
  assumes "a\<^sup>2 + b\<^sup>2 = 36" and "1 / 8 \<le> c"
  shows "sqrt (a\<^sup>2 + (b / c)\<^sup>2) \<le> 48"
proof -
  have c: "0 < c" using assms(2) by simp
  have "1 / 8 * (1 / 8) \<le> c * c"
    using assms(2) by (intro mult_mono) simp_all
  then have c2: "1 \<le> 64 * c\<^sup>2"
    by (simp add: power2_eq_square)
  have "b\<^sup>2 * 1 \<le> b\<^sup>2 * (64 * c\<^sup>2)"
    using c2 by (intro mult_left_mono) simp_all
  then have "(b / c)\<^sup>2 \<le> 64 * b\<^sup>2"
    using c by (simp add: power_divide divide_le_eq mult_ac)
  moreover have "a\<^sup>2 \<le> 64 * a\<^sup>2" by simp
  ultimately have "a\<^sup>2 + (b / c)\<^sup>2 \<le> 64 * a\<^sup>2 + 64 * b\<^sup>2"
    by (intro add_mono)
  then have "a\<^sup>2 + (b / c)\<^sup>2 \<le> 64 * (a\<^sup>2 + b\<^sup>2)"
    by (simp only: distrib_left)
  then have "a\<^sup>2 + (b / c)\<^sup>2 \<le> 48\<^sup>2"
    by (simp add: assms(1))
  then show ?thesis
    by (intro real_le_lsqrt) simp_all
qed

text \<open>
  Claim C10. In the scenario both calls return a finite number of kiloparsecs:
  the projected distance is positive, the deprojected one is strictly larger,
  and both are below the 783 kpc of the galaxy distance.
\<close>

theorem scenario_deprojected_larger:
  "\<exists>p d.
     correct_rgc scenario_coord scenario_ctr scenario_PA scenario_incl scenario_dist False =
       Inr \<lparr>q_value = Fin p, q_unit = kpc\<rparr> \<and>
     correct_rgc scenario_coord scenario_ctr scenario_PA scenario_incl scenario_dist True =
       Inr \<lparr>q_value = Fin d, q_unit = kpc\<rparr> \<and>
     0 < p \<and> p < d \<and> d < 783"
proof -
  define t where "t = deg_radian (scenario_PA - 180)"
  define a where "a = 6 * cos t"
  define b where "b = 6 * sin t"
  define c where "c = cos (deg_radian scenario_incl)"
  have xp: "rgc_xp scenario_coord scenario_ctr scenario_PA = Fin a"
    by (simp add: scenario_xp a_def t_def)
  have yp: "rgc_yp scenario_coord scenario_ctr scenario_PA = Fin b"
    by (simp add: scenario_yp b_def t_def)
  have c: "1 / 8 \<le> c" "c < 1"
    using cos_scenario_incl by (simp_all add: c_def)
  have b0: "b \<noteq> 0"
    using scenario_sin_negative by (simp add: b_def t_def)
  have "(cos t)\<^sup>2 + (sin t)\<^sup>2 = 1" by simp
  moreover have "a\<^sup>2 + b\<^sup>2 = 36 * (cos t)\<^sup>2 + 36 * (sin t)\<^sup>2"
    by (simp add: a_def b_def power_mult_distrib)
  ultimately have ab: "a\<^sup>2 + b\<^sup>2 = 36" by linarith
  have v: "q_value scenario_dist = Fin 783" "q_unit scenario_dist = kpc"
    by (simp_all add: scenario_dist_def)
  have proj: "correct_rgc scenario_coord scenario_ctr scenario_PA scenario_incl scenario_dist False =
      Inr \<lparr>q_value = Fin (sqrt (a\<^sup>2 + b\<^sup>2) * (pi / 10800) * 783), q_unit = kpc\<rparr>"
    using correct_rgc_finite [OF xp yp _ v(1), of False scenario_incl] by (simp add: v(2))
  have depr: "correct_rgc scenario_coord scenario_ctr scenario_PA scenario_incl scenario_dist True =
      Inr \<lparr>q_value = Fin (sqrt (a\<^sup>2 + (b / c)\<^sup>2) * (pi / 10800) * 783), q_unit = kpc\<rparr>"
    using correct_rgc_finite [OF xp yp _ v(1), of True scenario_incl] c
    by (simp add: v(2) c_def)
  have r6: "sqrt (a\<^sup>2 + b\<^sup>2) = 6"
    by (simp add: ab real_sqrt_unique)
  have pos: "0 < sqrt (a\<^sup>2 + b\<^sup>2) * (pi / 10800) * 783"
    by (simp add: r6)
  have "sqrt (a\<^sup>2 + (b / 1)\<^sup>2) < sqrt (a\<^sup>2 + (b / c)\<^sup>2)"
    using c by (intro stretch_strict_mono [OF b0]) simp_all
  then have less: "sqrt (a\<^sup>2 + b\<^sup>2) * (pi / 10800) * 783
                     < sqrt (a\<^sup>2 + (b / c)\<^sup>2) * (pi / 10800) * 783"
    by simp
  have "sqrt (a\<^sup>2 + (b / c)\<^sup>2) * pi \<le> 48 * pi"
    using stretched_radius_le [OF ab c(1)] by simp
  also have "\<dots> < 10800"
    using pi_less_4 by simp
  finally have small: "sqrt (a\<^sup>2 + (b / c)\<^sup>2) * (pi / 10800) * 783 < 783"
    by (simp add: mult.commute)
  from proj depr pos less small show ?thesis by blast
qed

subsection \<open>Arrays of coordinates\<close>

text \<open>
  Line by line, each array of the broadcast run holds the scalar run's value for
  every coordinate.
\<close>

lemma map2_same_list:
  "map2 f (map g xs) (map h xs) = map (\<lambda>x. f (g x) (h x)) xs"
  by (induction xs) simp_all

lemma correct_rgc_array_values:
  "correct_rgc_array coords glx_ctr glx_PA glx_incl glx_dist deproject =
     mk_Distance_array
       (map (\<lambda>c. np_mul (np_arcmin_radian (obj_radius c glx_ctr glx_PA glx_incl deproject))
                          (q_value glx_dist)) coords)
       (q_unit glx_dist)"
proof -
  have sky: "map2 (\<lambda>lon lat.
              angular_separation (deg_radian (ra glx_ctr)) (deg_radian (dec glx_ctr))
                                 (deg_radian lon) (deg_radian lat)) (map ra coords) (map dec coords)
        = map (\<lambda>c. sky_radius c glx_ctr) coords"
    by (simp add: map2_same_list sky_radius_def separation_def)
  have avg: "map (\<lambda>d. 0.5 * deg_radian (dec glx_ctr + d)) (map dec coords)
        = map (\<lambda>c. avg_dec c glx_ctr) coords"
    by (simp add: avg_dec_def)
  have x: "map2 (\<lambda>r a. (ra glx_ctr - r) * cos a) (map ra coords) (map (\<lambda>c. avg_dec c glx_ctr) coords)
        = map (\<lambda>c. rgc_x c glx_ctr) coords"
    by (simp add: map2_same_list rgc_x_def)
  have y: "map (\<lambda>d. dec glx_ctr - d) (map dec coords) = map (\<lambda>c. rgc_y c glx_ctr) coords"
    by (simp add: rgc_y_def)
  have quot: "map2 (\<lambda>b a. np_div (Fin (deg_arcsec b)) (Fin (deg_arcsec a)))
          (map (\<lambda>c. rgc_y c glx_ctr) coords) (map (\<lambda>c. rgc_x c glx_ctr) coords)
        = map (\<lambda>c. np_div (Fin (deg_arcsec (rgc_y c glx_ctr))) (Fin (deg_arcsec (rgc_x c glx_ctr)))) coords"
    by (rule map2_same_list)
  have phi: "map (\<lambda>q. np_add (Fin (glx_PA - 90)) (np_radian_deg (np_arctan q)))
          (map (\<lambda>c. np_div (Fin (deg_arcsec (rgc_y c glx_ctr))) (Fin (deg_arcsec (rgc_x c glx_ctr)))) coords)
        = map (\<lambda>c. rgc_phi c glx_ctr glx_PA) coords"
    unfolding rgc_phi_def rgc_arctan_def map_map o_def ..
  have xp: "map2 (\<lambda>s c. np_radian_arcmin (np_mul (Fin s) c)) (map (\<lambda>c. sky_radius c glx_ctr) coords)
          (map (\<lambda>p. np_cos (np_deg_radian p)) (map (\<lambda>c. rgc_phi c glx_ctr glx_PA) coords))
        = map (\<lambda>c. rgc_xp c glx_ctr glx_PA) coords"
    unfolding rgc_xp_def map_map o_def by (rule map2_same_list)
  have yp: "map2 (\<lambda>s c. np_radian_arcmin (np_mul (Fin s) c)) (map (\<lambda>c. sky_radius c glx_ctr) coords)
          (map (\<lambda>p. np_sin (np_deg_radian p)) (map (\<lambda>c. rgc_phi c glx_ctr glx_PA) coords))
        = map (\<lambda>c. rgc_yp c glx_ctr glx_PA) coords"
    unfolding rgc_yp_def map_map o_def by (rule map2_same_list)
  have ypp: "(if deproject
              then map (\<lambda>v. np_div v (Fin (cos (deg_radian glx_incl))))
                     (map (\<lambda>c. rgc_yp c glx_ctr glx_PA) coords)
              else map (\<lambda>c. rgc_yp c glx_ctr glx_PA) coords)
        = map (\<lambda>c. rgc_ypp c glx_ctr glx_PA glx_incl deproject) coords"
    by (simp add: rgc_ypp_def)
  have rad: "map2 (\<lambda>a b. np_sqrt (np_add (np_square a) (np_square b)))
          (map (\<lambda>c. rgc_xp c glx_ctr glx_PA) coords)
          (map (\<lambda>c. rgc_ypp c glx_ctr glx_PA glx_incl deproject) coords)
        = map (\<lambda>c. obj_radius c glx_ctr glx_PA glx_incl deproject) coords"
    unfolding obj_radius_def by (rule map2_same_list)
  show ?thesis
    unfolding correct_rgc_array_def Let_def
    unfolding sky avg
    unfolding x y
    unfolding quot
    unfolding phi
    unfolding xp yp
    unfolding ypp
    unfolding rad
    by (simp add: o_def)
qed

text \<open>
  Claim C9. For a galaxy distance that is a valid \<open>Distance\<close>, the call on an
  array of coordinates returns an array of the same length, and its element
  at each index is what the call on that coordinate alone returns, in the same
  unit. A single coordinate gives a single value by the type of
  \<open>correct_rgc\<close>.
\<close>

theorem array_is_elementwise:
  assumes "\<not> np_negative (q_value glx_dist)"
  shows "\<exists>vs.
           correct_rgc_array coords glx_ctr glx_PA glx_incl glx_dist deproject =
             Inr \<lparr>q_value = vs, q_unit = q_unit glx_dist\<rparr> \<and>
           length vs = length coords \<and>
           (\<forall>i<length coords.
              correct_rgc (coords ! i) glx_ctr glx_PA glx_incl glx_dist deproject =
                Inr \<lparr>q_value = vs ! i, q_unit = q_unit glx_dist\<rparr>)"
proof -
  define vs where "vs = map (\<lambda>c. np_mul (np_arcmin_radian
      (obj_radius c glx_ctr glx_PA glx_incl deproject)) (q_value glx_dist)) coords"
  have "\<not> list_ex np_negative vs"
    using obj_dist_not_negative [OF assms] by (simp add: vs_def list_ex_iff)
  then have "correct_rgc_array coords glx_ctr glx_PA glx_incl glx_dist deproject =
               Inr \<lparr>q_value = vs, q_unit = q_unit glx_dist\<rparr>"
    by (simp add: correct_rgc_array_values mk_Distance_array_def vs_def)
  moreover have "length vs = length coords"
    by (simp add: vs_def)
  moreover have "\<forall>i<length coords.
      correct_rgc (coords ! i) glx_ctr glx_PA glx_incl glx_dist deproject =
        Inr \<lparr>q_value = vs ! i, q_unit = q_unit glx_dist\<rparr>"
    by (simp add: correct_rgc_returns [OF assms] vs_def)
  ultimately show ?thesis by blast
qed

theorem array_is_elementwise_witness:
  "\<not> np_negative (q_value default_glx_dist) \<and>
   (\<exists>vs.
      correct_rgc_array [scenario_coord, default_glx_ctr] default_glx_ctr default_glx_PA
          default_glx_incl default_glx_dist True =
        Inr \<lparr>q_value = vs, q_unit = q_unit default_glx_dist\<rparr> \<and>
      length vs = length [scenario_coord, default_glx_ctr] \<and>
      (\<forall>i<length [scenario_coord, default_glx_ctr].
         correct_rgc ([scenario_coord, default_glx_ctr] ! i) default_glx_ctr default_glx_PA
             default_glx_incl default_glx_dist True =
           Inr \<lparr>q_value = vs ! i, q_unit = q_unit default_glx_dist\<rparr>))"
proof -
  have h: "\<not> np_negative (q_value default_glx_dist)"
    by (simp add: default_glx_dist_def)
  show ?thesis
    using h array_is_elementwise [OF h] by blast
qed

end
